theory Spec2Isabelle
  imports Main "HOL-Library.Sublist"
begin

section \<open>Python values shared by the three plugins\<close>

text \<open>
  The exceptions that the modelled code can raise. A fallible function returns
  \<open>py_error + 'a\<close>, with \<open>Inl\<close> the raised exception. \<open>sidecar_exception\<close> are the
  exceptions of the sidecar read (the two of \<open>configparser\<close> and any other),
  \<open>Unhandled\<close> is one of them leaving a \<open>try\<close> statement, \<open>RequestError\<close> a failed call
  of a lookup service.
\<close>

datatype sidecar_exception = NoSectionError | NoOptionError | OtherException

datatype py_error =
    AttributeError
  | KeyError
  | NameError
  | ValueError
  | PlainException string
  | RequestError
  | Unhandled sidecar_exception

subsection \<open>Strings\<close>

text \<open>
  A Python \<open>str\<close> is modelled as a list of 8-bit characters; the case and whitespace
  functions below are those of the ASCII range.
\<close>

definition lower_char :: "char \<Rightarrow> char" where
  "lower_char c =
     (if 65 \<le> (of_char c :: nat) \<and> (of_char c :: nat) \<le> 90
      then char_of ((of_char c :: nat) + 32) else c)"

definition lower :: "string \<Rightarrow> string" where
  "lower s = map lower_char s"

text \<open>\<open>str.isspace\<close> on one character: tab, line feed, vertical tab, form feed,
  carriage return, the four separators \<open>0x1c\<close> to \<open>0x1f\<close>, and the space.\<close>

definition is_space :: "char \<Rightarrow> bool" where
  "is_space c =
     ((9 \<le> (of_char c :: nat) \<and> (of_char c :: nat) \<le> 13)
      \<or> (28 \<le> (of_char c :: nat) \<and> (of_char c :: nat) \<le> 32))"

text \<open>\<open>sub in s\<close> on strings: \<open>sub\<close> occurs in \<open>s\<close> as a contiguous substring.\<close>

fun contains :: "string \<Rightarrow> string \<Rightarrow> bool" where
  "contains [] sub = (sub = [])"
| "contains (c # cs) sub = (prefix sub (c # cs) \<or> contains cs sub)"

text \<open>\<open>s.split(sep)\<close> for a one-character separator: never an empty list.\<close>

fun split_on :: "char \<Rightarrow> string \<Rightarrow> string list" where
  "split_on sep [] = [[]]"
| "split_on sep (c # cs) =
     (if c = sep then [] # split_on sep cs
      else (case split_on sep cs of
              [] \<Rightarrow> [[c]]
            | w # ws \<Rightarrow> (c # w) # ws))"

text \<open>\<open>s.split()\<close>: the maximal runs of non-whitespace characters.\<close>

fun split_ws_acc :: "string \<Rightarrow> string \<Rightarrow> string list" where
  "split_ws_acc cur [] = (if cur = [] then [] else [rev cur])"
| "split_ws_acc cur (c # cs) =
     (if is_space c
      then (if cur = [] then split_ws_acc [] cs else rev cur # split_ws_acc [] cs)
      else split_ws_acc (c # cur) cs)"

definition split_ws :: "string \<Rightarrow> string list" where
  "split_ws s = split_ws_acc [] s"

text \<open>\<open>s.strip()\<close>: leading and trailing whitespace removed.\<close>

definition strip :: "string \<Rightarrow> string" where
  "strip s = rev (dropWhile is_space (rev (dropWhile is_space s)))"

text \<open>\<open>'{}'.format(n)\<close> for an integer: its decimal numeral.\<close>

definition digit_char :: "nat \<Rightarrow> char" where
  "digit_char d = char_of (48 + d)"

fun str_of_nat :: "nat \<Rightarrow> string" where
  "str_of_nat n =
     (if n < 10 then [digit_char n]
      else str_of_nat (n div 10) @ [digit_char (n mod 10)])"

declare str_of_nat.simps [simp del]

definition str_of_int :: "int \<Rightarrow> string" where
  "str_of_int i = (if i < 0 then CHR ''-'' # str_of_nat (nat (- i)) else str_of_nat (nat i))"

text \<open>
  \<open>int(s)\<close> on a string of decimal digits; \<open>None\<close> stands for the \<open>ValueError\<close> that
  Python raises on the empty string and on a string with another character. (Python
  also accepts a sign, surrounding whitespace and underscores; no string parsed by the
  modelled code has them.)
\<close>

definition is_digit :: "char \<Rightarrow> bool" where
  "is_digit c = (48 \<le> (of_char c :: nat) \<and> (of_char c :: nat) \<le> 57)"

definition digit_val :: "char \<Rightarrow> nat" where
  "digit_val c = (of_char c :: nat) - 48"

definition int_of_str :: "string \<Rightarrow> nat option" where
  "int_of_str s =
     (if s = [] \<or> \<not> list_all is_digit s then None
      else Some (foldl (\<lambda>acc c. 10 * acc + digit_val c) 0 s))"

subsection \<open>The probed stream\<close>

text \<open>
  One entry of the probe document's \<open>streams\<close> list. \<open>codec_name\<close>, \<open>channels\<close> and
  \<open>tags\<close> may be missing from the entry (\<open>dict.get\<close> then gives \<open>None\<close>); \<open>tags\<close> is
  a dictionary from tag name to value, kept as an association list.
\<close>

datatype codec_type = Video | Audio | Subtitle | Data | Attachment

record stream =
  codec_type :: codec_type
  codec_name :: "string option"
  channels :: "int option"
  tags :: "(string \<times> string) list option"
  index :: nat

text \<open>\<open>d.get(key, '')\<close> on a tag dictionary.\<close>

definition tag_get :: "(string \<times> string) list \<Rightarrow> string \<Rightarrow> string" where
  "tag_get d key = (case map_of d key of None \<Rightarrow> [] | Some v \<Rightarrow> v)"

section \<open>encoder\_audio\_ac3\<close>

record ac3_settings =
  advanced :: bool
  custom_options :: string
  codec_selection_mode :: string
  selected_codecs :: "string list"

text \<open>\<open>PluginStreamMapper.calculate_bitrate\<close>.\<close>

definition calculate_bitrate :: "stream \<Rightarrow> string" where
  "calculate_bitrate stream_info =
     (case channels stream_info of
        None \<Rightarrow> ''640''
      | Some ch \<Rightarrow>
          if ch = 0 then ''640''
          else
            let ch' = (if ch > 6 then 6 else ch) in
            if ch' \<le> 2 then ''224''
            else if ch' \<le> 4 then ''448''
            else if ch' \<le> 6 then ''640''
            else ''640'')"

text \<open>The result of a \<open>custom_stream_mapping\<close>: the two token lists.\<close>

record mapping_fragment =
  stream_mapping :: "string list"
  stream_encoding :: "string list"

text \<open>\<open>PluginStreamMapper.custom_stream_mapping\<close> of the AC3 encoder.\<close>

definition ac3_custom_stream_mapping ::
  "ac3_settings \<Rightarrow> stream \<Rightarrow> nat \<Rightarrow> mapping_fragment" where
  "ac3_custom_stream_mapping settings stream_info stream_id =
     (let enc = [''-c:a:'' @ str_of_nat stream_id, ''ac3''];
          enc' =
            (if advanced settings then enc @ split_ws (custom_options settings)
             else (case channels stream_info of
                     None \<Rightarrow> enc
                   | Some ch \<Rightarrow>
                       if ch = 0 then enc
                       else
                         let calculated_bitrate = calculate_bitrate stream_info;
                             ch' = (if ch > 6 then 6 else ch)
                         in enc @ [''-ac:a:'' @ str_of_nat stream_id, str_of_int ch',
                                   ''-b:a:'' @ str_of_nat stream_id, calculated_bitrate @ ''k'']))
      in \<lparr> stream_mapping = [''-map'', ''0:a:'' @ str_of_nat stream_id],
           stream_encoding = enc' \<rparr>)"

text \<open>
  \<open>PluginStreamMapper.test_stream_needs_processing\<close> of the AC3 encoder. The settings
  are in scope (\<open>self.settings\<close>) and the function does not read them. A stream entry
  without \<open>codec_name\<close> makes \<open>.lower()\<close> fail on \<open>None\<close>.
\<close>

definition ac3_test_stream_needs_processing ::
  "ac3_settings \<Rightarrow> stream \<Rightarrow> py_error + bool" where
  "ac3_test_stream_needs_processing settings stream_info =
     (case codec_name stream_info of
        None \<Rightarrow> Inl AttributeError
      | Some name \<Rightarrow> if lower name \<in> set [''ac3''] then Inr False else Inr True)"

section \<open>extract\_ass\_subtitles\_to\_files\<close>

record ass_settings =
  languages_to_extract :: string
  include_title_in_output_file_name :: bool

text \<open>
  \<open>PluginStreamMapper._get_language_list\<close>: \<open>re.sub('\s', '-', ...)\<close> rewrites every
  whitespace character, then the string is lowercased, split at the commas, the empty
  pieces are filtered out and every remaining piece is stripped.
\<close>

definition get_language_list :: "ass_settings \<Rightarrow> string list" where
  "get_language_list settings =
     (let language_list = languages_to_extract settings;
          language_list' = map (\<lambda>c. if is_space c then CHR ''-'' else c) language_list;
          languages = filter (\<lambda>w. w \<noteq> []) (split_on CHR '','' (lower language_list'))
      in map strip languages)"

text \<open>
  \<open>PluginStreamMapper.test_stream_needs_processing\<close> of the subtitle extractor.
  \<open>stream_info.get('codec_name', '')\<close> has a default, \<open>stream_info.get('tags')\<close> has
  none: on an entry without \<open>tags\<close> the following \<open>.get\<close> is called on \<open>None\<close>.
\<close>

definition ass_test_stream_needs_processing ::
  "ass_settings \<Rightarrow> stream \<Rightarrow> py_error + bool" where
  "ass_test_stream_needs_processing settings stream_info =
     (if lower (case codec_name stream_info of None \<Rightarrow> [] | Some n \<Rightarrow> n)
           \<notin> set [''ass'', ''ssa'']
      then Inr False
      else
        let languages = get_language_list settings in
        if length languages = 0 then Inr True
        else (case tags stream_info of
                None \<Rightarrow> Inl AttributeError
              | Some t \<Rightarrow> Inr (lower (tag_get t ''language'') \<in> set languages)))"

text \<open>
  The attributes of the stream mapper that \<open>get_ffmpeg_args\<close> reads. \<open>input_file\<close> is
  the empty string until \<open>set_input_file\<close> has been called.
\<close>

record mapper =
  generic_options :: "string list"
  input_file :: string
  main_options :: "string list"
  advanced_options :: "string list"

text \<open>\<open>PluginStreamMapper.get_ffmpeg_args\<close> of the subtitle extractor.\<close>

definition get_ffmpeg_args :: "mapper \<Rightarrow> py_error + string list" where
  "get_ffmpeg_args self =
     (if input_file self = []
      then Inl (PlainException ''Input file has not been set'')
      else Inr (generic_options self @ [''-i'', input_file self]
                @ main_options self @ advanced_options self))"

subsection \<open>The marker of a previous run\<close>

text \<open>
  What \<open>directory_info.get(section, option)\<close> does: it returns the recorded value
  (\<open>None\<close> when the record holds none), or it raises.
\<close>

datatype sidecar_read = Returned "string option" | Raised sidecar_exception

text \<open>
  The names that the module binds at its top level (its imports, its logger, its classes
  and functions), and the builtin that \<open>ass_already_extracted\<close> names.
\<close>

definition module_names :: "string list" where
  "module_names =
     [''logging'', ''os'', ''re'', ''PluginSettings'', ''UnmanicDirectoryInfo'',
      ''StreamMapper'', ''Probe'', ''Parser'', ''logger'', ''Settings'',
      ''PluginStreamMapper'', ''ass_already_extracted'',
      ''on_library_management_file_test'', ''on_worker_process'',
      ''on_postprocessor_task_results'']"

definition builtin_names :: "string list" where
  "builtin_names = [''Exception'']"

text \<open>Whether an exception is an instance of the class that a bound name denotes.\<close>

fun is_instance :: "sidecar_exception \<Rightarrow> string \<Rightarrow> bool" where
  "is_instance e cls =
     (cls = ''Exception''
      \<or> (e = NoSectionError \<and> cls = ''NoSectionError'')
      \<or> (e = NoOptionError \<and> cls = ''NoOptionError''))"

text \<open>
  The \<open>except\<close> clauses of a \<open>try\<close> statement, tried in order once an exception has
  been raised in its body: the expression of a clause is evaluated, which raises
  \<open>NameError\<close> out of the statement when the name is not bound; otherwise the clause
  handles the exception if it is an instance. Every handler of \<open>ass_already_extracted\<close>
  sets \<open>already_extracted = ''\<close>, the value returned by \<open>Inr\<close>. An exception that no
  clause matches leaves the statement.
\<close>

fun run_handlers :: "string list \<Rightarrow> sidecar_exception \<Rightarrow> py_error + string" where
  "run_handlers [] e = Inl (Unhandled e)"
| "run_handlers (cls # rest) e =
     (if cls \<notin> set (module_names @ builtin_names) then Inl NameError
      else if is_instance e cls then Inr []
      else run_handlers rest e)"

text \<open>\<open>ass_already_extracted\<close>, on the outcome of the sidecar read.\<close>

definition ass_already_extracted :: "sidecar_read \<Rightarrow> py_error + bool" where
  "ass_already_extracted outcome =
     (case (case outcome of
              Returned v \<Rightarrow> Inr (case v of None \<Rightarrow> [] | Some x \<Rightarrow> x)
            | Raised e \<Rightarrow>
                run_handlers [''NoSectionError'', ''NoOptionError'', ''Exception''] e) of
        Inl err \<Rightarrow> Inl err
      | Inr already_extracted \<Rightarrow> if already_extracted \<noteq> [] then Inr True else Inr False)"

text \<open>
  The \<open>data\<close> dictionary of the file test: the flag that queues the file, and the
  \<open>shared_info\<close> entry (\<open>None\<close>: no such key; \<open>Some None\<close>: a dictionary without
  \<open>ffprobe\<close>; \<open>Some (Some p)\<close>: a dictionary holding the probe \<open>p\<close>).
\<close>

record file_test_data =
  add_file_to_pending_tasks :: "bool option"
  shared_info :: "stream list option option"

text \<open>
  \<open>on_library_management_file_test\<close> of the subtitle extractor. \<open>set_probe_ok\<close> is the
  answer of \<open>probe.set_probe\<close> to a shared probe, \<open>probed\<close> the outcome of
  \<open>probe.file\<close> (\<open>None\<close>: the probe failed), \<open>outcome\<close> the sidecar read. The function
  returns \<open>None\<close> on a bare \<open>return\<close>. The assignment \<open>data['shared_info']['ffprobe']\<close>
  raises \<open>KeyError\<close> when \<open>data\<close> has no \<open>shared_info\<close> key.
\<close>

definition on_library_management_file_test ::
  "bool \<Rightarrow> stream list option \<Rightarrow> sidecar_read \<Rightarrow> file_test_data
     \<Rightarrow> py_error + file_test_data option" where
  "on_library_management_file_test set_probe_ok probed outcome data =
     (let shared = (case shared_info data of None \<Rightarrow> None | Some d \<Rightarrow> d);
          probe = (case shared of
                     Some p \<Rightarrow> if set_probe_ok then Some p else None
                   | None \<Rightarrow> probed)
      in case probe of
           None \<Rightarrow> Inr None
         | Some p \<Rightarrow>
             (case shared_info data of
                None \<Rightarrow> Inl KeyError
              | Some d \<Rightarrow>
                  let data' = data \<lparr> shared_info := Some (Some p) \<rparr> in
                  (case ass_already_extracted outcome of
                     Inl err \<Rightarrow> Inl err
                   | Inr extracted \<Rightarrow>
                       if \<not> extracted
                       then Inr (Some (data' \<lparr> add_file_to_pending_tasks := Some True \<rparr>))
                       else Inr (Some data'))))"

section \<open>reorder\_audio\_streams\_by\_language\<close>

record reorder_settings =
  search_string_setting :: string
  use_radarr :: bool
  radarr_url :: string
  radarr_api_key :: string
  use_sonarr :: bool
  sonarr_url :: string
  sonarr_api_key :: string

text \<open>
  An entry of a lookup result: \<open>originalLanguage\<close> is missing or a dictionary, whose
  \<open>name\<close> the code reads. The two services and the language table are outside the
  plugin: \<open>lookup_movie\<close> and \<open>lookup_series\<close> are the outcomes of the two API calls for
  the file, \<open>languages_get\<close> maps a language name to its three-letter code.
\<close>

record media_entry =
  originalLanguage :: "(string \<times> string) list option"

record services =
  lookup_movie :: "py_error + media_entry list"
  lookup_series :: "py_error + media_entry list"
  languages_get :: "string \<Rightarrow> string option"

text \<open>\<open>PluginStreamMapper.get_language_from_radarr\<close>.\<close>

definition get_language_from_radarr ::
  "reorder_settings \<Rightarrow> services \<Rightarrow> py_error + string option" where
  "get_language_from_radarr settings env =
     (if radarr_url settings = [] \<or> radarr_api_key settings = [] then Inr None
      else (case lookup_movie env of
              Inl err \<Rightarrow> Inl err
            | Inr movie_data \<Rightarrow>
                if length movie_data = 0 then Inr None
                else (case originalLanguage (movie_data ! 0) of
                        None \<Rightarrow> Inr None
                      | Some original_language \<Rightarrow>
                          if original_language = [] then Inr None
                          else (case map_of original_language ''name'' of
                                  None \<Rightarrow> Inl KeyError
                                | Some name \<Rightarrow> Inr (languages_get env name)))))"

text \<open>\<open>PluginStreamMapper.get_language_from_sonarr\<close>.\<close>

definition get_language_from_sonarr ::
  "reorder_settings \<Rightarrow> services \<Rightarrow> py_error + string option" where
  "get_language_from_sonarr settings env =
     (if sonarr_url settings = [] \<or> sonarr_api_key settings = [] then Inr None
      else (case lookup_series env of
              Inl err \<Rightarrow> Inl err
            | Inr series_data \<Rightarrow>
                if length series_data = 0 then Inr None
                else (case originalLanguage (series_data ! 0) of
                        None \<Rightarrow> Inr None
                      | Some original_language \<Rightarrow>
                          if original_language = [] then Inr None
                          else (case map_of original_language ''name'' of
                                  None \<Rightarrow> Inl KeyError
                                | Some name \<Rightarrow> Inr (languages_get env name)))))"

text \<open>Python truth of a value that is \<open>None\<close> or a string.\<close>

definition truthy :: "string option \<Rightarrow> bool" where
  "truthy v = (case v of None \<Rightarrow> False | Some x \<Rightarrow> x \<noteq> [])"

text \<open>\<open>PluginStreamMapper.set_langcode\<close>: the value assigned to \<open>self.search_string\<close>.\<close>

definition set_langcode :: "reorder_settings \<Rightarrow> services \<Rightarrow> py_error + string" where
  "set_langcode settings env =
     (case (if use_radarr settings then get_language_from_radarr settings env
            else Inr (Some [])) of
        Inl err \<Rightarrow> Inl err
      | Inr original_langcode \<Rightarrow>
          (case (if use_sonarr settings \<and> \<not> truthy original_langcode
                 then get_language_from_sonarr settings env
                 else Inr original_langcode) of
             Inl err \<Rightarrow> Inl err
           | Inr original_langcode' \<Rightarrow>
               Inr (if truthy original_langcode' then the original_langcode'
                    else search_string_setting settings)))"

text \<open>\<open>PluginStreamMapper.test_tags_for_search_string\<close>.\<close>

definition test_tags_for_search_string ::
  "string \<Rightarrow> (string \<times> string) list option \<Rightarrow> bool" where
  "test_tags_for_search_string search_string stream_tags =
     (case stream_tags of
        None \<Rightarrow> False
      | Some t \<Rightarrow>
          if t \<noteq> [] \<and> True \<in> set (map (\<lambda>k. lower k \<in> set [''title'', ''language'']) (map fst t))
          then (if contains (lower (tag_get t ''language'')) (lower search_string) then True
                else if contains (lower (tag_get t ''title'')) search_string then True
                else False)
          else False)"

text \<open>The attributes of the reorder plugin's stream mapper.\<close>

record reorder_mapper =
  search_string :: string
  found_search_string_streams :: bool
  first_stream_mapping :: "string list"
  last_stream_mapping :: "string list"
  search_string_stream_mapping :: "string list"
  unmatched_stream_mapping :: "string list"

text \<open>\<open>PluginStreamMapper.__init__\<close> followed by the assignment of the search string.\<close>

definition new_mapper :: "string \<Rightarrow> reorder_mapper" where
  "new_mapper s =
     \<lparr> search_string = s, found_search_string_streams = False,
       first_stream_mapping = [], last_stream_mapping = [],
       search_string_stream_mapping = [], unmatched_stream_mapping = [] \<rparr>"

fun ident :: "codec_type \<Rightarrow> string" where
  "ident Video = ''v''"
| "ident Audio = ''a''"
| "ident Subtitle = ''s''"
| "ident Data = ''d''"
| "ident Attachment = ''t''"

text \<open>The stream selector \<open>"0:{}:{}".format(ident.get(codec_type), stream_id)\<close>.\<close>

definition selector :: "codec_type \<Rightarrow> nat \<Rightarrow> string" where
  "selector t stream_id = ''0:'' @ ident t @ '':'' @ str_of_nat stream_id"

text \<open>
  \<open>PluginStreamMapper.custom_stream_mapping\<close> of the reorder plugin: the mapper after
  the call. The value that the method returns is the empty fragment on every path.
\<close>

definition reorder_custom_stream_mapping ::
  "reorder_mapper \<Rightarrow> stream \<Rightarrow> nat \<Rightarrow> reorder_mapper" where
  "reorder_custom_stream_mapping self stream_info stream_id =
     (let t = codec_type stream_info in
      if t = Audio then
        (if test_tags_for_search_string (search_string self) (tags stream_info) then
           (let self' = self \<lparr> found_search_string_streams := True \<rparr> in
            if length (search_string_stream_mapping self') = 0 then
              self' \<lparr> search_string_stream_mapping :=
                        search_string_stream_mapping self'
                        @ [''-map'', selector t stream_id,
                           ''-disposition:'' @ ident t @ '':'' @ str_of_nat 0, ''default''] \<rparr>
            else
              self' \<lparr> search_string_stream_mapping :=
                        search_string_stream_mapping self' @ [''-map'', selector t stream_id] \<rparr>)
         else
           self \<lparr> unmatched_stream_mapping :=
                    unmatched_stream_mapping self @ [''-map'', selector t stream_id] \<rparr>)
      else
        (if \<not> found_search_string_streams self then
           self \<lparr> first_stream_mapping :=
                    first_stream_mapping self @ [''-map'', selector t stream_id] \<rparr>
         else
           self \<lparr> last_stream_mapping :=
                    last_stream_mapping self @ [''-map'', selector t stream_id] \<rparr>))"

text \<open>
  Modelled from the spec: \<open>StreamMapper.streams_need_processing\<close> of the plugin's
  \<open>lib.ffmpeg\<close> package, which is not in the source tree. It drives the classifier over
  the full stream list in probe order and keeps one running position counter per codec
  type; the reorder plugin's test accepts every stream, so every stream reaches
  \<open>custom_stream_mapping\<close> with the count of the earlier streams of its own type.
\<close>

fun streams_need_processing ::
  "reorder_mapper \<Rightarrow> (codec_type \<Rightarrow> nat) \<Rightarrow> stream list \<Rightarrow> reorder_mapper" where
  "streams_need_processing self counts [] = self"
| "streams_need_processing self counts (stream_info # rest) =
     streams_need_processing
       (reorder_custom_stream_mapping self stream_info (counts (codec_type stream_info)))
       (counts (codec_type stream_info := Suc (counts (codec_type stream_info))))
       rest"

text \<open>
  The loop of \<open>streams_to_be_reordered\<close> over the concatenated buckets: an item that
  contains \<open>-map\<close>, \<open>-disposition\<close> or \<open>default\<close> is skipped; of any other item the
  text after the last colon is read as an integer and compared with the counter; the
  first difference ends the loop with \<open>True\<close>.
\<close>

fun reorder_scan :: "nat \<Rightarrow> string list \<Rightarrow> py_error + bool" where
  "reorder_scan counter [] = Inr False"
| "reorder_scan counter (item # items) =
     (if contains item ''-map'' \<or> contains item ''-disposition'' \<or> contains item ''default''
      then reorder_scan counter items
      else (case int_of_str (last (split_on CHR '':'' item)) of
              None \<Rightarrow> Inl ValueError
            | Some original_position \<Rightarrow>
                if original_position \<noteq> counter then Inr True
                else reorder_scan (counter + 1) items))"

text \<open>\<open>PluginStreamMapper.streams_to_be_reordered\<close>, on the probe's stream list.\<close>

definition streams_to_be_reordered :: "reorder_mapper \<Rightarrow> stream list \<Rightarrow> py_error + bool" where
  "streams_to_be_reordered self probe_streams =
     (let self' = streams_need_processing self (\<lambda>t. 0) probe_streams in
      if search_string_stream_mapping self' \<noteq> [] \<and> unmatched_stream_mapping self' \<noteq> []
      then reorder_scan 0 (search_string_stream_mapping self' @ unmatched_stream_mapping self')
      else Inr False)"

subsection \<open>What the reorder verdict is compared with\<close>

text \<open>
  The audio streams of a file in probe order, each with the answer of the tag test: the
  position in this list is the stream's index within its type.
\<close>

definition audio_matches :: "string \<Rightarrow> stream list \<Rightarrow> bool list" where
  "audio_matches s streams =
     map (\<lambda>st. test_tags_for_search_string s (tags st))
       (filter (\<lambda>st. codec_type st = Audio) streams)"

text \<open>The positions, counted from \<open>n\<close>, at which a list of answers holds \<open>v\<close>.\<close>

definition indices_where :: "bool \<Rightarrow> nat \<Rightarrow> bool list \<Rightarrow> nat list" where
  "indices_where v n bs = map fst (filter (\<lambda>p. snd p = v) (zip [n ..< n + length bs] bs))"

text \<open>The tokens of a bucket of audio streams that carry no disposition override.\<close>

definition plain_fragments :: "nat list \<Rightarrow> string list" where
  "plain_fragments idxs = concat (map (\<lambda>j. [''-map'', selector Audio j]) idxs)"

text \<open>
  The matched bucket after the audio streams \<open>idxs\<close> have been added to the bucket
  \<open>old\<close>: the override follows the first stream added to an empty bucket.
\<close>

definition matched_append :: "string list \<Rightarrow> nat list \<Rightarrow> string list" where
  "matched_append old idxs =
     (case idxs of
        [] \<Rightarrow> old
      | i # rest \<Rightarrow>
          (if old = []
           then [''-map'', selector Audio i, ''-disposition:a:'' @ str_of_nat 0, ''default'']
           else old @ [''-map'', selector Audio i]) @ plain_fragments rest)"

text \<open>
  The per-type indices of the audio streams that carry the search string, and of those
  that do not, in the order of the probe.
\<close>

definition matched_indices :: "string \<Rightarrow> stream list \<Rightarrow> nat list" where
  "matched_indices s streams = indices_where True 0 (audio_matches s streams)"

definition unmatched_indices :: "string \<Rightarrow> stream list \<Rightarrow> nat list" where
  "unmatched_indices s streams = indices_where False 0 (audio_matches s streams)"

section \<open>Results for the AC3 encoder\<close>

lemma str_of_int_six: "str_of_int 6 = ''6''"
  by code_simp

text \<open>
  C5. The bit rate is 224 for one or two channels, 448 for three or four, 640 for five
  or six, and 640 when the channel count is missing or above six; in basic mode a
  stream with more than six channels is encoded with the channel token 6.
\<close>

theorem calculate_bitrate_table:
  assumes "c12 \<in> {1, 2}" and "c34 \<in> {3, 4}" and "c56 \<in> {5, 6}" and "6 < big"
    and "\<not> advanced cfg"
  shows "calculate_bitrate (s \<lparr> channels := Some c12 \<rparr>) = ''224''
       \<and> calculate_bitrate (s \<lparr> channels := Some c34 \<rparr>) = ''448''
       \<and> calculate_bitrate (s \<lparr> channels := Some c56 \<rparr>) = ''640''
       \<and> calculate_bitrate (s \<lparr> channels := None \<rparr>) = ''640''
       \<and> calculate_bitrate (s \<lparr> channels := Some big \<rparr>) = ''640''
       \<and> stream_encoding (ac3_custom_stream_mapping cfg (s \<lparr> channels := Some big \<rparr>) sid) =
           [''-c:a:'' @ str_of_nat sid, ''ac3'',
            ''-ac:a:'' @ str_of_nat sid, ''6'',
            ''-b:a:'' @ str_of_nat sid, ''640k'']"
  using assms
  by (auto simp: calculate_bitrate_def ac3_custom_stream_mapping_def Let_def str_of_int_six)

theorem calculate_bitrate_table_witness:
  "calculate_bitrate \<lparr> codec_type = Audio, codec_name = Some ''dts'', channels = Some 2,
                       tags = None, index = 1 \<rparr> = ''224''
   \<and> calculate_bitrate \<lparr> codec_type = Audio, codec_name = Some ''dts'', channels = Some 8,
                         tags = None, index = 1 \<rparr> = ''640''
   \<and> stream_encoding
       (ac3_custom_stream_mapping
          \<lparr> advanced = False, custom_options = [], codec_selection_mode = ''all'',
            selected_codecs = [] \<rparr>
          \<lparr> codec_type = Audio, codec_name = Some ''dts'', channels = Some 8,
            tags = None, index = 1 \<rparr> 0) =
       [''-c:a:'' @ str_of_nat 0, ''ac3'', ''-ac:a:'' @ str_of_nat 0, ''6'',
        ''-b:a:'' @ str_of_nat 0, ''640k'']"
  using calculate_bitrate_table
    [of 2 3 5 8
        "\<lparr> advanced = False, custom_options = [], codec_selection_mode = ''all'',
           selected_codecs = [] \<rparr>"
        "\<lparr> codec_type = Audio, codec_name = Some ''dts'', channels = None,
           tags = None, index = 1 \<rparr>" 0]
  by simp

text \<open>
  C2. The codec test of the AC3 encoder does not consult the selection mode: in
  \<open>selected\<close> mode with the allow-list \<open>dts\<close>, an \<open>aac\<close> stream still needs processing.
\<close>

theorem ac3_test_ignores_selection:
  "ac3_test_stream_needs_processing
     \<lparr> advanced = False, custom_options = [], codec_selection_mode = ''selected'',
       selected_codecs = [''dts''] \<rparr>
     \<lparr> codec_type = Audio, codec_name = Some ''aac'', channels = Some 2,
       tags = None, index = 1 \<rparr> = Inr True"
  by (simp add: ac3_test_stream_needs_processing_def lower_def lower_char_def)

section \<open>Results for the subtitle extractor\<close>

text \<open>
  C3. On the configured string \<open>eng, fre ,,JPN\<close> the language list is
  \<open>eng\<close>, \<open>-fre-\<close>, \<open>jpn\<close>: the blanks around \<open>fre\<close> have become hyphens before the
  split, and stripping finds no whitespace to remove.
\<close>

theorem get_language_list_example:
  "get_language_list
     \<lparr> languages_to_extract = ''eng, fre ,,JPN'',
       include_title_in_output_file_name = True \<rparr> = [''eng'', ''-fre-'', ''jpn'']"
  by code_simp

text \<open>
  C6. On an \<open>ass\<close> stream without a \<open>tags\<close> entry and with a non-empty language filter,
  the test of the subtitle extractor raises \<open>AttributeError\<close>.
\<close>

theorem ass_test_missing_tags_raises:
  "ass_test_stream_needs_processing
     \<lparr> languages_to_extract = ''eng'', include_title_in_output_file_name = True \<rparr>
     \<lparr> codec_type = Subtitle, codec_name = Some ''ass'', channels = None,
       tags = None, index = 2 \<rparr> = Inl AttributeError"
  by code_simp

text \<open>
  C7. When the sidecar holds a non-empty marker for the file, the file is reported as
  already extracted and the file test leaves the queueing flag as it found it; with a
  \<open>shared_info\<close> entry and a successful probe it returns the data, the flag untouched.
\<close>

theorem marker_present_not_marked:
  assumes "marker \<noteq> []" and "shared_info ready = Some None" and "probed = Some p"
  shows "ass_already_extracted (Returned (Some marker)) = Inr True
       \<and> (case on_library_management_file_test ok pr (Returned (Some marker)) data of
            Inr (Some data') \<Rightarrow> add_file_to_pending_tasks data' = add_file_to_pending_tasks data
          | _ \<Rightarrow> True)
       \<and> on_library_management_file_test ok probed (Returned (Some marker)) ready =
           Inr (Some (ready \<lparr> shared_info := Some (Some p) \<rparr>))"
  using assms
  by (auto simp: ass_already_extracted_def on_library_management_file_test_def Let_def
           split: option.splits sum.splits)

theorem marker_present_not_marked_witness:
  "ass_already_extracted (Returned (Some ''eng'')) = Inr True
   \<and> on_library_management_file_test True (Some []) (Returned (Some ''eng''))
       \<lparr> add_file_to_pending_tasks = Some False, shared_info = Some None \<rparr> =
      Inr (Some \<lparr> add_file_to_pending_tasks = Some False, shared_info = Some (Some []) \<rparr>)"
  using marker_present_not_marked
    [where marker = "''eng''" and probed = "Some []" and p = "[]" and ok = True
       and pr = "Some []"
       and data = "\<lparr> add_file_to_pending_tasks = Some False, shared_info = Some None \<rparr>"
       and ready = "\<lparr> add_file_to_pending_tasks = Some False, shared_info = Some None \<rparr>"]
  by simp

text \<open>
  C8. When the sidecar read raises, whatever the exception, \<open>ass_already_extracted\<close>
  raises \<open>NameError\<close>: the first \<open>except\<close> clause names \<open>NoSectionError\<close>, which the
  module does not bind.
\<close>

theorem ass_already_extracted_raises:
  "ass_already_extracted (Raised e) = Inl NameError"
  by (simp add: ass_already_extracted_def module_names_def builtin_names_def)

text \<open>
  C10. \<open>get_ffmpeg_args\<close> raises exactly when the input file has not been set, and the
  exception is the one with the message \<open>Input file has not been set\<close>; with the input
  file set it returns the generic options, the input file, the main options and the
  advanced options, in this order.
\<close>

theorem get_ffmpeg_args_precondition:
  assumes "input_file unset = []" and "input_file ready \<noteq> []"
  shows "(isl (get_ffmpeg_args self) \<longleftrightarrow> input_file self = [])
       \<and> get_ffmpeg_args unset = Inl (PlainException ''Input file has not been set'')
       \<and> get_ffmpeg_args ready =
           Inr (generic_options ready @ [''-i'', input_file ready]
                @ main_options ready @ advanced_options ready)"
  using assms by (simp add: get_ffmpeg_args_def)

theorem get_ffmpeg_args_precondition_witness:
  "get_ffmpeg_args \<lparr> generic_options = [''-hide_banner''], input_file = [],
                     main_options = [], advanced_options = [''-strict'', ''-2''] \<rparr> =
     Inl (PlainException ''Input file has not been set'')
   \<and> get_ffmpeg_args \<lparr> generic_options = [''-hide_banner''], input_file = ''/m/a.mkv'',
                       main_options = [], advanced_options = [''-strict'', ''-2''] \<rparr> =
     Inr [''-hide_banner'', ''-i'', ''/m/a.mkv'', ''-strict'', ''-2'']"
  using get_ffmpeg_args_precondition
    [of "\<lparr> generic_options = [''-hide_banner''], input_file = [],
           main_options = [], advanced_options = [''-strict'', ''-2''] \<rparr>"
        "\<lparr> generic_options = [''-hide_banner''], input_file = ''/m/a.mkv'',
           main_options = [], advanced_options = [''-strict'', ''-2''] \<rparr>"]
  by simp

section \<open>Results for the reorder plugin\<close>

subsection \<open>The language resolver\<close>

lemma radarr_nothing:
  assumes "radarr_url settings = [] \<or> radarr_api_key settings = []
         \<or> lookup_movie env = Inr []
         \<or> (\<exists>m ms. lookup_movie env = Inr (m # ms) \<and> originalLanguage m = None)
         \<or> (\<exists>m ms d n. lookup_movie env = Inr (m # ms) \<and> originalLanguage m = Some d
               \<and> map_of d ''name'' = Some n \<and> languages_get env n = None)"
  shows "get_language_from_radarr settings env = Inr None"
  using assms by (auto simp: get_language_from_radarr_def)

lemma sonarr_nothing:
  assumes "sonarr_url settings = [] \<or> sonarr_api_key settings = []
         \<or> lookup_series env = Inr []
         \<or> (\<exists>m ms. lookup_series env = Inr (m # ms) \<and> originalLanguage m = None)
         \<or> (\<exists>m ms d n. lookup_series env = Inr (m # ms) \<and> originalLanguage m = Some d
               \<and> map_of d ''name'' = Some n \<and> languages_get env n = None)"
  shows "get_language_from_sonarr settings env = Inr None"
  using assms by (auto simp: get_language_from_sonarr_def)

lemma radarr_found:
  assumes "radarr_url settings \<noteq> []" "radarr_api_key settings \<noteq> []"
    "lookup_movie env = Inr (m # ms)" "originalLanguage m = Some d"
    "map_of d ''name'' = Some n"
  shows "get_language_from_radarr settings env = Inr (languages_get env n)"
proof -
  have "d \<noteq> []" using assms(5) by auto
  then show ?thesis using assms by (simp add: get_language_from_radarr_def)
qed

lemma sonarr_found:
  assumes "sonarr_url settings \<noteq> []" "sonarr_api_key settings \<noteq> []"
    "lookup_series env = Inr (m # ms)" "originalLanguage m = Some d"
    "map_of d ''name'' = Some n"
  shows "get_language_from_sonarr settings env = Inr (languages_get env n)"
proof -
  have "d \<noteq> []" using assms(5) by auto
  then show ?thesis using assms by (simp add: get_language_from_sonarr_def)
qed

lemma set_langcode_radarr_wins:
  assumes "use_radarr settings" "get_language_from_radarr settings env = Inr (Some c)" "c \<noteq> []"
  shows "set_langcode settings env = Inr c"
  using assms by (simp add: set_langcode_def truthy_def)

lemma set_langcode_sonarr_next:
  assumes "\<not> use_radarr settings
           \<or> (\<exists>v. get_language_from_radarr settings env = Inr v \<and> \<not> truthy v)"
    and "use_sonarr settings" "get_language_from_sonarr settings env = Inr (Some c)" "c \<noteq> []"
  shows "set_langcode settings env = Inr c"
  using assms by (auto simp: set_langcode_def truthy_def)

lemma set_langcode_default:
  assumes "\<not> use_radarr settings
           \<or> (\<exists>v. get_language_from_radarr settings env = Inr v \<and> \<not> truthy v)"
    and "\<not> use_sonarr settings
           \<or> (\<exists>v. get_language_from_sonarr settings env = Inr v \<and> \<not> truthy v)"
  shows "set_langcode settings env = Inr (search_string_setting settings)"
  using assms by (auto simp: set_langcode_def truthy_def)

lemma set_langcode_request_error:
  "use_radarr settings \<Longrightarrow> radarr_url settings \<noteq> [] \<Longrightarrow> radarr_api_key settings \<noteq> [] \<Longrightarrow>
   lookup_movie env = Inl err \<Longrightarrow> set_langcode settings env = Inl err"
  by (simp add: set_langcode_def get_language_from_radarr_def)

lemma set_langcode_listed_failures:
  assumes a: "\<not> use_radarr settings
         \<or> radarr_url settings = [] \<or> radarr_api_key settings = []
         \<or> lookup_movie env = Inr []
         \<or> (\<exists>m ms. lookup_movie env = Inr (m # ms) \<and> originalLanguage m = None)
         \<or> (\<exists>m ms d n. lookup_movie env = Inr (m # ms) \<and> originalLanguage m = Some d
               \<and> map_of d ''name'' = Some n \<and> languages_get env n = None)"
    and b: "\<not> use_sonarr settings
         \<or> sonarr_url settings = [] \<or> sonarr_api_key settings = []
         \<or> lookup_series env = Inr []
         \<or> (\<exists>m ms. lookup_series env = Inr (m # ms) \<and> originalLanguage m = None)
         \<or> (\<exists>m ms d n. lookup_series env = Inr (m # ms) \<and> originalLanguage m = Some d
               \<and> map_of d ''name'' = Some n \<and> languages_get env n = None)"
  shows "set_langcode settings env = Inr (search_string_setting settings)"
proof -
  have r: "use_radarr settings \<Longrightarrow> get_language_from_radarr settings env = Inr None"
    using a radarr_nothing [of settings env] by blast
  have s: "use_sonarr settings \<Longrightarrow> get_language_from_sonarr settings env = Inr None"
    using b sonarr_nothing [of settings env] by blast
  show ?thesis
    using r s by (cases "use_radarr settings"; cases "use_sonarr settings")
      (simp_all add: set_langcode_def truthy_def)
qed

text \<open>
  C9. \<open>set_langcode\<close> asks Radarr first, Sonarr next, and falls back to the configured
  search string last: a code found by Radarr is the result whatever Sonarr would answer;
  a code found by Sonarr is the result when Radarr is disabled or yields nothing; the
  configured search string is the result when both are disabled or yield nothing. Each
  listed failure of a source (missing URL or key, empty lookup result, entry without
  original language, language name not in the table) makes that source return \<open>None\<close>
  instead of raising, and a source whose first entry names a language of the table
  returns its code. So with Radarr disabled, Sonarr enabled and returning no data, and
  the search string \<open>spa\<close>, the result is \<open>spa\<close>.
\<close>

theorem set_langcode_resolution_order:
  "(use_radarr settings \<and> get_language_from_radarr settings env = Inr (Some c) \<and> c \<noteq> []
      \<longrightarrow> set_langcode settings env = Inr c)
   \<and> ((\<not> use_radarr settings
         \<or> (\<exists>v. get_language_from_radarr settings env = Inr v \<and> \<not> truthy v))
       \<and> use_sonarr settings \<and> get_language_from_sonarr settings env = Inr (Some c) \<and> c \<noteq> []
      \<longrightarrow> set_langcode settings env = Inr c)
   \<and> ((\<not> use_radarr settings
         \<or> (\<exists>v. get_language_from_radarr settings env = Inr v \<and> \<not> truthy v))
       \<and> (\<not> use_sonarr settings
         \<or> (\<exists>v. get_language_from_sonarr settings env = Inr v \<and> \<not> truthy v))
      \<longrightarrow> set_langcode settings env = Inr (search_string_setting settings))
   \<and> (radarr_url settings = [] \<or> radarr_api_key settings = []
         \<or> lookup_movie env = Inr []
         \<or> (\<exists>m ms. lookup_movie env = Inr (m # ms) \<and> originalLanguage m = None)
         \<or> (\<exists>m ms d n. lookup_movie env = Inr (m # ms) \<and> originalLanguage m = Some d
               \<and> map_of d ''name'' = Some n \<and> languages_get env n = None)
      \<longrightarrow> get_language_from_radarr settings env = Inr None)
   \<and> (sonarr_url settings = [] \<or> sonarr_api_key settings = []
         \<or> lookup_series env = Inr []
         \<or> (\<exists>m ms. lookup_series env = Inr (m # ms) \<and> originalLanguage m = None)
         \<or> (\<exists>m ms d n. lookup_series env = Inr (m # ms) \<and> originalLanguage m = Some d
               \<and> map_of d ''name'' = Some n \<and> languages_get env n = None)
      \<longrightarrow> get_language_from_sonarr settings env = Inr None)
   \<and> (radarr_url settings \<noteq> [] \<and> radarr_api_key settings \<noteq> []
       \<and> (\<exists>m ms d n. lookup_movie env = Inr (m # ms) \<and> originalLanguage m = Some d
               \<and> map_of d ''name'' = Some n \<and> languages_get env n = Some c)
      \<longrightarrow> get_language_from_radarr settings env = Inr (Some c))
   \<and> (sonarr_url settings \<noteq> [] \<and> sonarr_api_key settings \<noteq> []
       \<and> (\<exists>m ms d n. lookup_series env = Inr (m # ms) \<and> originalLanguage m = Some d
               \<and> map_of d ''name'' = Some n \<and> languages_get env n = Some c)
      \<longrightarrow> get_language_from_sonarr settings env = Inr (Some c))
   \<and> (((\<not> use_radarr settings
         \<or> radarr_url settings = [] \<or> radarr_api_key settings = []
         \<or> lookup_movie env = Inr []
         \<or> (\<exists>m ms. lookup_movie env = Inr (m # ms) \<and> originalLanguage m = None)
         \<or> (\<exists>m ms d n. lookup_movie env = Inr (m # ms) \<and> originalLanguage m = Some d
               \<and> map_of d ''name'' = Some n \<and> languages_get env n = None))
       \<and> (\<not> use_sonarr settings
         \<or> sonarr_url settings = [] \<or> sonarr_api_key settings = []
         \<or> lookup_series env = Inr []
         \<or> (\<exists>m ms. lookup_series env = Inr (m # ms) \<and> originalLanguage m = None)
         \<or> (\<exists>m ms d n. lookup_series env = Inr (m # ms) \<and> originalLanguage m = Some d
               \<and> map_of d ''name'' = Some n \<and> languages_get env n = None))
      \<longrightarrow> set_langcode settings env = Inr (search_string_setting settings)))"
proof -
  have a: "use_radarr settings \<and> get_language_from_radarr settings env = Inr (Some c) \<and> c \<noteq> []
      \<longrightarrow> set_langcode settings env = Inr c"
    using set_langcode_radarr_wins [of settings env c] by blast
  have b: "(\<not> use_radarr settings
         \<or> (\<exists>v. get_language_from_radarr settings env = Inr v \<and> \<not> truthy v))
       \<and> use_sonarr settings \<and> get_language_from_sonarr settings env = Inr (Some c) \<and> c \<noteq> []
      \<longrightarrow> set_langcode settings env = Inr c"
    using set_langcode_sonarr_next [of settings env c] by blast
  have d: "(\<not> use_radarr settings
         \<or> (\<exists>v. get_language_from_radarr settings env = Inr v \<and> \<not> truthy v))
       \<and> (\<not> use_sonarr settings
         \<or> (\<exists>v. get_language_from_sonarr settings env = Inr v \<and> \<not> truthy v))
      \<longrightarrow> set_langcode settings env = Inr (search_string_setting settings)"
    using set_langcode_default [of settings env] by blast
  have e: "radarr_url settings = [] \<or> radarr_api_key settings = []
         \<or> lookup_movie env = Inr []
         \<or> (\<exists>m ms. lookup_movie env = Inr (m # ms) \<and> originalLanguage m = None)
         \<or> (\<exists>m ms d n. lookup_movie env = Inr (m # ms) \<and> originalLanguage m = Some d
               \<and> map_of d ''name'' = Some n \<and> languages_get env n = None)
      \<longrightarrow> get_language_from_radarr settings env = Inr None"
    using radarr_nothing [of settings env] by blast
  have f: "sonarr_url settings = [] \<or> sonarr_api_key settings = []
         \<or> lookup_series env = Inr []
         \<or> (\<exists>m ms. lookup_series env = Inr (m # ms) \<and> originalLanguage m = None)
         \<or> (\<exists>m ms d n. lookup_series env = Inr (m # ms) \<and> originalLanguage m = Some d
               \<and> map_of d ''name'' = Some n \<and> languages_get env n = None)
      \<longrightarrow> get_language_from_sonarr settings env = Inr None"
    using sonarr_nothing [of settings env] by blast
  have g: "radarr_url settings \<noteq> [] \<and> radarr_api_key settings \<noteq> []
       \<and> (\<exists>m ms d n. lookup_movie env = Inr (m # ms) \<and> originalLanguage m = Some d
               \<and> map_of d ''name'' = Some n \<and> languages_get env n = Some c)
      \<longrightarrow> get_language_from_radarr settings env = Inr (Some c)"
    using radarr_found [of settings env] by metis
  have h: "sonarr_url settings \<noteq> [] \<and> sonarr_api_key settings \<noteq> []
       \<and> (\<exists>m ms d n. lookup_series env = Inr (m # ms) \<and> originalLanguage m = Some d
               \<and> map_of d ''name'' = Some n \<and> languages_get env n = Some c)
      \<longrightarrow> get_language_from_sonarr settings env = Inr (Some c)"
    using sonarr_found [of settings env] by metis
  have i: "(\<not> use_radarr settings
         \<or> radarr_url settings = [] \<or> radarr_api_key settings = []
         \<or> lookup_movie env = Inr []
         \<or> (\<exists>m ms. lookup_movie env = Inr (m # ms) \<and> originalLanguage m = None)
         \<or> (\<exists>m ms d n. lookup_movie env = Inr (m # ms) \<and> originalLanguage m = Some d
               \<and> map_of d ''name'' = Some n \<and> languages_get env n = None))
       \<and> (\<not> use_sonarr settings
         \<or> sonarr_url settings = [] \<or> sonarr_api_key settings = []
         \<or> lookup_series env = Inr []
         \<or> (\<exists>m ms. lookup_series env = Inr (m # ms) \<and> originalLanguage m = None)
         \<or> (\<exists>m ms d n. lookup_series env = Inr (m # ms) \<and> originalLanguage m = Some d
               \<and> map_of d ''name'' = Some n \<and> languages_get env n = None))
      \<longrightarrow> set_langcode settings env = Inr (search_string_setting settings)"
    using set_langcode_listed_failures [of settings env] by blast
  show ?thesis
    by (rule conjI, rule a, rule conjI, rule b, rule conjI, rule d, rule conjI, rule e,
        rule conjI, rule f, rule conjI, rule g, rule conjI, rule h, rule i)
qed

theorem set_langcode_resolution_order_witness:
  "set_langcode
     \<lparr> search_string_setting = ''spa'', use_radarr = True,
       radarr_url = ''http://localhost:7878'', radarr_api_key = ''k'',
       use_sonarr = True, sonarr_url = ''http://localhost:8989'',
       sonarr_api_key = ''k'' \<rparr>
     \<lparr> lookup_movie = Inr [\<lparr> originalLanguage = Some [(''name'', ''French'')] \<rparr>],
       lookup_series = Inr [\<lparr> originalLanguage = Some [(''name'', ''Japanese'')] \<rparr>],
       languages_get = (\<lambda>n. if n = ''French'' then Some ''fra''
                             else if n = ''Japanese'' then Some ''jpn'' else None) \<rparr>
     = Inr ''fra''
   \<and> set_langcode
     \<lparr> search_string_setting = ''spa'', use_radarr = True,
       radarr_url = ''http://localhost:7878'', radarr_api_key = ''k'',
       use_sonarr = True, sonarr_url = ''http://localhost:8989'',
       sonarr_api_key = ''k'' \<rparr>
     \<lparr> lookup_movie = Inr [],
       lookup_series = Inr [\<lparr> originalLanguage = Some [(''name'', ''Japanese'')] \<rparr>],
       languages_get = (\<lambda>n. if n = ''French'' then Some ''fra''
                             else if n = ''Japanese'' then Some ''jpn'' else None) \<rparr>
     = Inr ''jpn''
   \<and> set_langcode
     \<lparr> search_string_setting = ''spa'', use_radarr = False,
       radarr_url = ''http://localhost:7878'', radarr_api_key = [],
       use_sonarr = True, sonarr_url = ''http://localhost:8989'',
       sonarr_api_key = ''k'' \<rparr>
     \<lparr> lookup_movie = Inl RequestError, lookup_series = Inr [],
       languages_get = (\<lambda>n. None) \<rparr>
     = Inr ''spa''"
proof -
  let ?both = "\<lparr> search_string_setting = ''spa'', use_radarr = True,
       radarr_url = ''http://localhost:7878'', radarr_api_key = ''k'',
       use_sonarr = True, sonarr_url = ''http://localhost:8989'',
       sonarr_api_key = ''k'' \<rparr>"
  let ?sonarr_only = "\<lparr> search_string_setting = ''spa'', use_radarr = False,
       radarr_url = ''http://localhost:7878'', radarr_api_key = [],
       use_sonarr = True, sonarr_url = ''http://localhost:8989'',
       sonarr_api_key = ''k'' \<rparr>"
  let ?table = "\<lambda>n. if n = ''French'' then Some ''fra''
                    else if n = ''Japanese'' then Some ''jpn'' else None"
  let ?found = "\<lparr> lookup_movie = Inr [\<lparr> originalLanguage = Some [(''name'', ''French'')] \<rparr>],
       lookup_series = Inr [\<lparr> originalLanguage = Some [(''name'', ''Japanese'')] \<rparr>],
       languages_get = ?table \<rparr>"
  let ?no_movie = "\<lparr> lookup_movie = Inr [],
       lookup_series = Inr [\<lparr> originalLanguage = Some [(''name'', ''Japanese'')] \<rparr>],
       languages_get = ?table \<rparr>"
  let ?no_data = "\<lparr> lookup_movie = Inl RequestError, lookup_series = Inr [],
       languages_get = (\<lambda>n. None) \<rparr>"
  have first: "set_langcode ?both ?found = Inr ''fra''"
    using set_langcode_resolution_order [where settings = ?both and env = ?found and c = "''fra''"]
    by (simp add: get_language_from_radarr_def)
  have second: "set_langcode ?both ?no_movie = Inr ''jpn''"
    using set_langcode_resolution_order
      [where settings = ?both and env = ?no_movie and c = "''jpn''"]
    by (simp add: get_language_from_radarr_def get_language_from_sonarr_def truthy_def)
  have third: "set_langcode ?sonarr_only ?no_data = Inr ''spa''"
    using set_langcode_resolution_order
      [where settings = ?sonarr_only and env = ?no_data and c = "''spa''"]
    by simp
  show ?thesis using first second third by simp
qed

subsection \<open>The tag test\<close>

text \<open>
  C4. With the search string \<open>ENG\<close>, an audio stream whose only tag is the title \<open>ENG\<close>
  fails the tag test and goes to the unmatched bucket: the title is lowercased before
  the comparison, the search string is not.
\<close>

theorem title_match_misses_uppercase_search:
  "test_tags_for_search_string ''ENG'' (Some [(''title'', ''ENG'')]) = False
   \<and> unmatched_stream_mapping
       (reorder_custom_stream_mapping (new_mapper ''ENG'')
          \<lparr> codec_type = Audio, codec_name = Some ''aac'', channels = Some 2,
            tags = Some [(''title'', ''ENG'')], index = 1 \<rparr> 0) = [''-map'', ''0:a:0'']
   \<and> search_string_stream_mapping
       (reorder_custom_stream_mapping (new_mapper ''ENG'')
          \<lparr> codec_type = Audio, codec_name = Some ''aac'', channels = Some 2,
            tags = Some [(''title'', ''ENG'')], index = 1 \<rparr> 0) = []"
  by code_simp

subsection \<open>Decimal numerals, fields and keywords\<close>

lemma digit_char_props:
  assumes "d < 10"
  shows "is_digit (digit_char d)" and "digit_val (digit_char d) = d"
  using assms by (simp_all add: is_digit_def digit_val_def digit_char_def)

lemma str_of_nat_digits: "list_all is_digit (str_of_nat n)"
  by (induction n rule: str_of_nat.induct)
     (subst str_of_nat.simps, simp add: digit_char_props)

lemma str_of_nat_nonempty: "str_of_nat n \<noteq> []"
  by (subst str_of_nat.simps) simp

lemma str_of_nat_value:
  "foldl (\<lambda>acc c. 10 * acc + digit_val c) 0 (str_of_nat n) = n"
  by (induction n rule: str_of_nat.induct)
     (subst str_of_nat.simps, simp add: digit_char_props)

lemma int_of_str_of_nat: "int_of_str (str_of_nat n) = Some n"
  by (simp add: int_of_str_def str_of_nat_digits str_of_nat_nonempty str_of_nat_value)

lemma split_on_nonempty: "split_on c xs \<noteq> []"
  by (induction xs) (auto split: list.splits)

lemma split_on_absent: "c \<notin> set xs \<Longrightarrow> split_on c xs = [xs]"
  by (induction xs) auto

lemma split_on_append: "split_on c (xs @ c # ys) = split_on c xs @ split_on c ys"
proof (induction xs)
  case Nil
  show ?case by simp
next
  case (Cons x xs)
  obtain w ws where w: "split_on c xs = w # ws"
    using split_on_nonempty [of c xs] by (cases "split_on c xs") auto
  show ?case using Cons w by simp
qed

lemma last_split_on:
  assumes "c \<notin> set ys"
  shows "last (split_on c (xs @ c # ys)) = ys"
  by (simp add: split_on_append split_on_absent [OF assms])

lemma is_digit_not_colon: "is_digit c \<Longrightarrow> c \<noteq> CHR '':'' \<and> c \<noteq> CHR ''-'' \<and> c \<noteq> CHR ''e''"
  by (auto simp: is_digit_def)

lemma str_of_nat_chars:
  "CHR '':'' \<notin> set (str_of_nat n)" "CHR ''-'' \<notin> set (str_of_nat n)" "CHR ''e'' \<notin> set (str_of_nat n)"
  using str_of_nat_digits [of n] is_digit_not_colon by (auto simp: list_all_iff)

lemma selector_position:
  "int_of_str (last (split_on CHR '':'' (selector t n))) = Some n"
proof -
  have "selector t n = (''0:'' @ ident t) @ CHR '':'' # str_of_nat n"
    by (simp add: selector_def)
  then show ?thesis
    using last_split_on [OF str_of_nat_chars(1), of "''0:'' @ ident t" n]
    by (simp add: int_of_str_of_nat)
qed

lemma contains_subset:
  assumes "contains s sub"
  shows "set sub \<subseteq> set s"
  using assms
proof (induction s)
  case Nil
  then show ?case by simp
next
  case (Cons a s)
  show ?case
  proof (cases "prefix sub (a # s)")
    case True
    then show ?thesis by (rule set_mono_prefix)
  next
    case False
    then have "contains s sub" using Cons.prems by simp
    then show ?thesis using Cons.IH by auto
  qed
qed

lemma contains_prefix: "contains (sub @ rest) sub"
proof (cases "sub @ rest")
  case Nil
  then show ?thesis by simp
next
  case (Cons a list)
  have "prefix sub (sub @ rest)" by simp
  then show ?thesis unfolding Cons by simp
qed

lemma selector_chars:
  "CHR ''-'' \<notin> set (selector t n)" "CHR ''e'' \<notin> set (selector t n)"
  using str_of_nat_chars [of n] by (cases t; simp add: selector_def)+

lemma selector_not_keyword:
  "\<not> contains (selector t n) ''-map''"
  "\<not> contains (selector t n) ''-disposition''"
  "\<not> contains (selector t n) ''default''"
  using contains_subset [of "selector t n" "''-map''"]
        contains_subset [of "selector t n" "''-disposition''"]
        contains_subset [of "selector t n" "''default''"]
        selector_chars [of t n] by auto

lemma keyword_items:
  "contains ''-map'' ''-map''"
  "contains (''-disposition:a:'' @ str_of_nat 0) ''-disposition''"
  "contains ''default'' ''default''"
  using contains_prefix [of "''-map''" "[]"]
        contains_prefix [of "''-disposition''" "'':a:'' @ str_of_nat 0"]
        contains_prefix [of "''default''" "[]"]
  by simp_all

lemma scan_fragment:
  "reorder_scan c (''-map'' # selector t i # rest) =
     (if i \<noteq> c then Inr True else reorder_scan (Suc c) rest)"
  using keyword_items(1) by (simp add: selector_not_keyword selector_position)

lemma scan_first_fragment:
  "reorder_scan c (''-map'' # selector t i # (''-disposition:a:'' @ str_of_nat 0)
                    # ''default'' # rest) =
     (if i \<noteq> c then Inr True else reorder_scan (Suc c) rest)"
  using keyword_items by (simp add: selector_not_keyword selector_position)

lemma upt_shift: "[c ..< c + Suc k] = c # [Suc c ..< Suc c + k]"
  by (subst upt_conv_Cons) simp_all

lemma scan_plain:
  "reorder_scan c (plain_fragments idxs) = Inr (idxs \<noteq> [c ..< c + length idxs])"
proof (induction idxs arbitrary: c)
  case Nil
  show ?case by (simp add: plain_fragments_def)
next
  case (Cons i idxs)
  have "reorder_scan c (plain_fragments (i # idxs)) =
          (if i \<noteq> c then Inr True else reorder_scan (Suc c) (plain_fragments idxs))"
    using scan_fragment [of c Audio i "plain_fragments idxs"]
    by (simp add: plain_fragments_def)
  moreover have "[c ..< c + length (i # idxs)] = c # [Suc c ..< Suc c + length idxs]"
    using upt_shift [of c "length idxs"] by simp
  ultimately show ?case using Cons.IH [of "Suc c"] by (simp only: list.inject) auto
qed

subsection \<open>The two buckets and the verdict\<close>

lemma indices_where_Nil: "indices_where v n [] = []"
  by (simp add: indices_where_def)

lemma indices_where_Cons:
  "indices_where v n (b # bs) = (if b = v then [n] else []) @ indices_where v (Suc n) bs"
  using upt_shift [of n "length bs"] by (simp add: indices_where_def)

lemma matched_append_nonempty:
  "old \<noteq> [] \<Longrightarrow> matched_append old idxs = old @ plain_fragments idxs"
  by (cases idxs) (simp_all add: matched_append_def plain_fragments_def)

lemma plain_fragments_append:
  "plain_fragments (xs @ ys) = plain_fragments xs @ plain_fragments ys"
  by (simp add: plain_fragments_def)

lemma custom_non_audio:
  assumes "codec_type st \<noteq> Audio"
  shows "search_string_stream_mapping (reorder_custom_stream_mapping self st k) =
           search_string_stream_mapping self"
    and "unmatched_stream_mapping (reorder_custom_stream_mapping self st k) =
           unmatched_stream_mapping self"
    and "search_string (reorder_custom_stream_mapping self st k) = search_string self"
  using assms by (simp_all add: reorder_custom_stream_mapping_def Let_def)

lemma custom_audio_matched:
  assumes "codec_type st = Audio"
    and "test_tags_for_search_string (search_string self) (tags st)"
  shows "search_string_stream_mapping (reorder_custom_stream_mapping self st k) =
           matched_append (search_string_stream_mapping self) [k]"
    and "unmatched_stream_mapping (reorder_custom_stream_mapping self st k) =
           unmatched_stream_mapping self"
    and "search_string (reorder_custom_stream_mapping self st k) = search_string self"
  using assms
  by (simp_all add: reorder_custom_stream_mapping_def Let_def matched_append_def
        plain_fragments_def selector_def)

lemma custom_audio_unmatched:
  assumes "codec_type st = Audio"
    and "\<not> test_tags_for_search_string (search_string self) (tags st)"
  shows "search_string_stream_mapping (reorder_custom_stream_mapping self st k) =
           search_string_stream_mapping self"
    and "unmatched_stream_mapping (reorder_custom_stream_mapping self st k) =
           unmatched_stream_mapping self @ plain_fragments [k]"
    and "search_string (reorder_custom_stream_mapping self st k) = search_string self"
  using assms
  by (simp_all add: reorder_custom_stream_mapping_def Let_def plain_fragments_def)

lemma matched_append_step:
  "matched_append (matched_append old [k]) idxs = matched_append old (k # idxs)"
proof -
  have "matched_append old [k] \<noteq> []"
    by (simp add: matched_append_def plain_fragments_def)
  then show ?thesis
    by (simp add: matched_append_nonempty) (simp add: matched_append_def plain_fragments_def)
qed

lemma buckets_after_run:
  "search_string (streams_need_processing self counts streams) = search_string self
   \<and> search_string_stream_mapping (streams_need_processing self counts streams) =
       matched_append (search_string_stream_mapping self)
         (indices_where True (counts Audio) (audio_matches (search_string self) streams))
   \<and> unmatched_stream_mapping (streams_need_processing self counts streams) =
       unmatched_stream_mapping self
       @ plain_fragments
           (indices_where False (counts Audio) (audio_matches (search_string self) streams))"
proof (induction streams arbitrary: self counts)
  case Nil
  show ?case
    by (simp add: audio_matches_def indices_where_Nil matched_append_def plain_fragments_def)
next
  case (Cons st streams)
  let ?self = "reorder_custom_stream_mapping self st (counts (codec_type st))"
  let ?counts = "counts (codec_type st := Suc (counts (codec_type st)))"
  note IH = Cons.IH [of ?self ?counts]
  show ?case
  proof (cases "codec_type st = Audio")
    case False
    then show ?thesis
      using IH custom_non_audio [OF False, of self "counts (codec_type st)"]
      by (simp add: audio_matches_def fun_upd_def)
  next
    case audio: True
    show ?thesis
    proof (cases "test_tags_for_search_string (search_string self) (tags st)")
      case True
      then show ?thesis
        using IH custom_audio_matched [OF audio True, of "counts (codec_type st)"] audio
        by (simp add: audio_matches_def indices_where_Cons matched_append_step fun_upd_def)
    next
      case False
      then show ?thesis
        using IH custom_audio_unmatched [OF audio False, of "counts (codec_type st)"] audio
        by (simp add: audio_matches_def indices_where_Cons plain_fragments_def fun_upd_def)
    qed
  qed
qed


lemma indices_where_append:
  "indices_where v n (xs @ ys) = indices_where v n xs @ indices_where v (n + length xs) ys"
  by (induction xs arbitrary: n) (simp_all add: indices_where_Nil indices_where_Cons)

lemma indices_where_replicate:
  "indices_where v n (replicate k v) = [n ..< n + k]"
  "indices_where (\<not> v) n (replicate k v) = []"
proof -
  show "indices_where v n (replicate k v) = [n ..< n + k]"
  proof (induction k arbitrary: n)
    case 0
    show ?case by (simp add: indices_where_Nil)
  next
    case (Suc k)
    have "indices_where v n (replicate (Suc k) v) = n # indices_where v (Suc n) (replicate k v)"
      by (simp add: indices_where_Cons)
    also have "\<dots> = n # [Suc n ..< Suc n + k]"
      by (simp only: Suc)
    also have "\<dots> = [n ..< n + Suc k]"
      by (rule upt_shift [symmetric])
    finally show ?case .
  qed
  show "indices_where (\<not> v) n (replicate k v) = []"
    by (induction k arbitrary: n) (simp_all add: indices_where_Nil indices_where_Cons)
qed

lemma ordered_indices:
  assumes "bs = replicate a True @ replicate b False"
  shows "indices_where True 0 bs @ indices_where False 0 bs = [0 ..< a + b]"
proof -
  have t1: "indices_where True 0 (replicate a True) = [0 ..< 0 + a]"
    by (rule indices_where_replicate(1))
  have t2: "indices_where True a (replicate b False) = []"
    using indices_where_replicate(2) [of False a b] by simp
  have f1: "indices_where False 0 (replicate a True) = []"
    using indices_where_replicate(2) [of True 0 a] by simp
  have f2: "indices_where False a (replicate b False) = [a ..< a + b]"
    by (rule indices_where_replicate(1))
  have "indices_where True 0 bs = [0 ..< a]"
    unfolding assms indices_where_append using t1 t2 by simp
  moreover have "indices_where False 0 bs = [a ..< a + b]"
    unfolding assms indices_where_append using f1 f2 by simp
  moreover have "[0 ..< a + b] = [0 ..< a] @ [a ..< a + b]"
    by (rule upt_add_eq_append) simp
  ultimately show ?thesis by (simp only:)
qed

lemma not_in_order: "xs \<noteq> [0 ..< length xs] \<longleftrightarrow> (\<exists>p < length xs. xs ! p \<noteq> p)"
proof -
  have "xs = [0 ..< length xs] \<longleftrightarrow> (\<forall>p < length xs. xs ! p = p)"
    by (subst list_eq_iff_nth_eq) simp
  then show ?thesis by blast
qed

lemma plain_fragments_empty: "plain_fragments idxs = [] \<longleftrightarrow> idxs = []"
  by (cases idxs) (simp_all add: plain_fragments_def)

lemma matched_append_empty: "matched_append [] idxs = [] \<longleftrightarrow> idxs = []"
  by (cases idxs) (simp_all add: matched_append_def)

lemma scan_buckets:
  assumes "M \<noteq> []"
  shows "reorder_scan 0 (matched_append [] M @ plain_fragments U) =
           Inr (M @ U \<noteq> [0 ..< length (M @ U)])"
proof -
  obtain i rest where M: "M = i # rest" using assms by (cases M) auto
  have a: "reorder_scan 0 (matched_append [] M @ plain_fragments U) =
          (if i \<noteq> 0 then Inr True else reorder_scan (Suc 0) (plain_fragments (rest @ U)))"
    using scan_first_fragment [of 0 Audio i "plain_fragments (rest @ U)"]
    by (simp add: M matched_append_def plain_fragments_append)
  have b: "reorder_scan (Suc 0) (plain_fragments (rest @ U)) =
          Inr (rest @ U \<noteq> [Suc 0 ..< Suc 0 + length (rest @ U)])"
    by (rule scan_plain)
  have "length (M @ U) = 0 + Suc (length (rest @ U))"
    by (simp add: M)
  then have "[0 ..< length (M @ U)] = 0 # [Suc 0 ..< Suc 0 + length (rest @ U)]"
    by (simp only: upt_shift)
  moreover have "M @ U = i # (rest @ U)"
    by (simp add: M)
  ultimately have c: "M @ U \<noteq> [0 ..< length (M @ U)] \<longleftrightarrow>
      (i \<noteq> 0 \<or> rest @ U \<noteq> [Suc 0 ..< Suc 0 + length (rest @ U)])"
    by (simp only: list.inject de_Morgan_conj)
  show ?thesis unfolding a b c by simp
qed

text \<open>
  C1. For every stream inventory and every search string, on a fresh mapper: after the
  mapping run the matched bucket holds the fragments of the matching audio streams and the
  unmatched bucket those of the other audio streams, each in probe order; the verdict of
  \<open>streams_to_be_reordered\<close> is always returned, and it is true exactly when both
  buckets are non-empty and, in the concatenation matched followed by unmatched, some
  stream's per-type index differs from its position among the stream selectors. In
  particular, when every matching audio stream already precedes every other audio stream,
  the verdict is false.
\<close>

theorem streams_to_be_reordered_verdict:
  "search_string_stream_mapping (streams_need_processing (new_mapper s) (\<lambda>t. 0) streams) =
     matched_append [] (matched_indices s streams)
   \<and> unmatched_stream_mapping (streams_need_processing (new_mapper s) (\<lambda>t. 0) streams) =
     plain_fragments (unmatched_indices s streams)
   \<and> streams_to_be_reordered (new_mapper s) streams =
     Inr (search_string_stream_mapping
            (streams_need_processing (new_mapper s) (\<lambda>t. 0) streams) \<noteq> []
          \<and> unmatched_stream_mapping
              (streams_need_processing (new_mapper s) (\<lambda>t. 0) streams) \<noteq> []
          \<and> (\<exists>p < length (matched_indices s streams @ unmatched_indices s streams).
                (matched_indices s streams @ unmatched_indices s streams) ! p \<noteq> p))
   \<and> ((\<exists>a b. audio_matches s streams = replicate a True @ replicate b False) \<longrightarrow>
        streams_to_be_reordered (new_mapper s) streams = Inr False)"
proof -
  let ?run = "streams_need_processing (new_mapper s) (\<lambda>t. 0) streams"
  let ?M = "matched_indices s streams"
  let ?U = "unmatched_indices s streams"
  have new: "search_string (new_mapper s) = s"
    "search_string_stream_mapping (new_mapper s) = []"
    "unmatched_stream_mapping (new_mapper s) = []"
    by (simp_all add: new_mapper_def)
  have m: "search_string_stream_mapping ?run = matched_append [] ?M"
    using buckets_after_run [of "new_mapper s" "\<lambda>t. 0" streams]
    by (simp add: new matched_indices_def)
  have u: "unmatched_stream_mapping ?run = plain_fragments ?U"
    using buckets_after_run [of "new_mapper s" "\<lambda>t. 0" streams]
    by (simp add: new unmatched_indices_def)
  have ne: "(search_string_stream_mapping ?run \<noteq> []) = (?M \<noteq> [])"
    "(unmatched_stream_mapping ?run \<noteq> []) = (?U \<noteq> [])"
    by (simp_all add: m u matched_append_empty plain_fragments_empty)
  have verdict: "streams_to_be_reordered (new_mapper s) streams =
      Inr (?M \<noteq> [] \<and> ?U \<noteq> [] \<and> ?M @ ?U \<noteq> [0 ..< length (?M @ ?U)])"
  proof (cases "?M \<noteq> [] \<and> ?U \<noteq> []")
    case True
    then have "streams_to_be_reordered (new_mapper s) streams =
        reorder_scan 0 (matched_append [] ?M @ plain_fragments ?U)"
      using ne by (simp add: streams_to_be_reordered_def Let_def m u)
    then show ?thesis using True scan_buckets [of ?M ?U] by simp
  next
    case False
    then have "streams_to_be_reordered (new_mapper s) streams = Inr False"
      using ne by (auto simp add: streams_to_be_reordered_def Let_def)
    then show ?thesis using False by auto
  qed
  have third: "streams_to_be_reordered (new_mapper s) streams =
     Inr (search_string_stream_mapping ?run \<noteq> [] \<and> unmatched_stream_mapping ?run \<noteq> []
          \<and> (\<exists>p < length (?M @ ?U). (?M @ ?U) ! p \<noteq> p))"
    unfolding verdict ne not_in_order [of "?M @ ?U"] ..
  have ordered: "streams_to_be_reordered (new_mapper s) streams = Inr False"
    if "audio_matches s streams = replicate a True @ replicate b False" for a b
  proof -
    have eq: "?M @ ?U = [0 ..< a + b]"
      using ordered_indices [OF that] by (simp add: matched_indices_def unmatched_indices_def)
    have len: "length (?M @ ?U) = a + b"
      using arg_cong [OF eq, of length] by simp
    have "?M @ ?U = [0 ..< length (?M @ ?U)]"
      unfolding len by (rule eq)
    then show ?thesis unfolding verdict by simp
  qed
  show ?thesis
    using m u third ordered by blast
qed

theorem streams_to_be_reordered_verdict_witness:
  "streams_to_be_reordered (new_mapper ''en'')
     [\<lparr> codec_type = Audio, codec_name = Some ''aac'', channels = Some 2,
        tags = Some [(''language'', ''en'')], index = 0 \<rparr>,
      \<lparr> codec_type = Video, codec_name = Some ''h264'', channels = None,
        tags = None, index = 1 \<rparr>,
      \<lparr> codec_type = Audio, codec_name = Some ''aac'', channels = Some 2,
        tags = Some [(''language'', ''fr'')], index = 2 \<rparr>] = Inr False
   \<and> streams_to_be_reordered (new_mapper ''en'')
     [\<lparr> codec_type = Audio, codec_name = Some ''aac'', channels = Some 2,
        tags = Some [(''language'', ''en'')], index = 0 \<rparr>,
      \<lparr> codec_type = Video, codec_name = Some ''h264'', channels = None,
        tags = None, index = 1 \<rparr>,
      \<lparr> codec_type = Audio, codec_name = Some ''aac'', channels = Some 2,
        tags = Some [(''language'', ''fr'')], index = 2 \<rparr>,
      \<lparr> codec_type = Audio, codec_name = Some ''aac'', channels = Some 2,
        tags = Some [(''language'', ''en'')], index = 3 \<rparr>] = Inr True"
proof -
  let ?ordered =
    "[\<lparr> codec_type = Audio, codec_name = Some ''aac'', channels = Some 2,
        tags = Some [(''language'', ''en'')], index = 0 \<rparr>,
      \<lparr> codec_type = Video, codec_name = Some ''h264'', channels = None,
        tags = None, index = 1 \<rparr>,
      \<lparr> codec_type = Audio, codec_name = Some ''aac'', channels = Some 2,
        tags = Some [(''language'', ''fr'')], index = 2 \<rparr>]"
  let ?mixed =
    "[\<lparr> codec_type = Audio, codec_name = Some ''aac'', channels = Some 2,
        tags = Some [(''language'', ''en'')], index = 0 \<rparr>,
      \<lparr> codec_type = Video, codec_name = Some ''h264'', channels = None,
        tags = None, index = 1 \<rparr>,
      \<lparr> codec_type = Audio, codec_name = Some ''aac'', channels = Some 2,
        tags = Some [(''language'', ''fr'')], index = 2 \<rparr>,
      \<lparr> codec_type = Audio, codec_name = Some ''aac'', channels = Some 2,
        tags = Some [(''language'', ''en'')], index = 3 \<rparr>]"
  have "audio_matches ''en'' ?ordered = replicate 1 True @ replicate 1 False"
    by code_simp
  then have "\<exists>a b. audio_matches ''en'' ?ordered = replicate a True @ replicate b False"
    by blast
  then have first: "streams_to_be_reordered (new_mapper ''en'') ?ordered = Inr False"
    using streams_to_be_reordered_verdict [of "''en''" ?ordered] by blast
  have M: "matched_indices ''en'' ?mixed = [0, 2]"
    and U: "unmatched_indices ''en'' ?mixed = [1]"
    by code_simp+
  have "(1::nat) < length ([0, 2] @ [1 :: nat]) \<and> ([0, 2] @ [1 :: nat]) ! 1 \<noteq> 1"
    by simp
  then have moved: "\<exists>p < length ([0, 2] @ [1 :: nat]). ([0, 2] @ [1 :: nat]) ! p \<noteq> p"
    by blast
  have second: "streams_to_be_reordered (new_mapper ''en'') ?mixed = Inr True"
    using streams_to_be_reordered_verdict [of "''en''" ?mixed] moved
    unfolding M U by (simp add: matched_append_empty plain_fragments_empty)
  show ?thesis using first second by (rule conjI)
qed

end
